theory Spec2Isabelle
  imports Main "HOL-Library.Word" "HOL-Library.Sublist"
begin

section \<open>JavaScript strings\<close>

text \<open>
  A JavaScript string is a sequence of UTF-16 code units; \<open>.length\<close> counts code units and a
  regular expression without the \<open>u\<close> flag matches code unit by code unit. String literals of
  the source are ASCII, written here through \<open>js\<close>.
\<close>

type_synonym code_unit = "16 word"

type_synonym jsstring = "code_unit list"

definition js :: "string \<Rightarrow> jsstring" where
  "js lit = map of_char lit"

text \<open>
  The code units that ECMAScript calls WhiteSpace or LineTerminator. \<open>String.prototype.trim\<close>
  strips them from both ends, and the class escape \<open>\s\<close> matches exactly them:
  TAB, LF, VT, FF, CR, SP, NBSP, U+1680, U+2000..U+200A, LS, PS, U+202F, U+205F, U+3000, U+FEFF.
\<close>

definition isWhiteSpace :: "code_unit \<Rightarrow> bool" where
  "isWhiteSpace c =
     (c = 0x09 \<or> c = 0x0A \<or> c = 0x0B \<or> c = 0x0C \<or> c = 0x0D \<or> c = 0x20 \<or> c = 0xA0 \<or>
      c = 0x1680 \<or> (0x2000 \<le> c \<and> c \<le> 0x200A) \<or> c = 0x2028 \<or> c = 0x2029 \<or>
      c = 0x202F \<or> c = 0x205F \<or> c = 0x3000 \<or> c = 0xFEFF)"

text \<open>The class escape \<open>\d\<close>: the ASCII digits \<open>0\<close> to \<open>9\<close>.\<close>

definition isDigit :: "code_unit \<Rightarrow> bool" where
  "isDigit c = (0x30 \<le> c \<and> c \<le> 0x39)"

definition trim :: "jsstring \<Rightarrow> jsstring" where
  "trim s = rev (dropWhile isWhiteSpace (rev (dropWhile isWhiteSpace s)))"

text \<open>
  Number-to-string conversion of a template literal, for the non-negative integers that the
  validator interpolates: the decimal digits, most significant first, no leading zero.
\<close>

definition digit :: "nat \<Rightarrow> code_unit" where
  "digit d = 0x30 + of_nat d"

fun ToString :: "nat \<Rightarrow> jsstring" where
  "ToString n = (if n < 10 then [digit n] else ToString (n div 10) @ [digit (n mod 10)])"

declare ToString.simps [simp del]

section \<open>Regular expressions\<close>

text \<open>
  The fragment of the pattern syntax that the two literals of the validator use. Both have
  the shape \<open>^ t1 t2 ... tn $\<close> with no flags, every \<open>ti\<close> an atom or an atom under \<open>+\<close>, and an
  atom a single character or a character class.
\<close>

datatype class_atom = ClassEscape_d | ClassEscape_s | ClassChar code_unit

datatype atom = PatternCharacter code_unit | CharacterClass bool "class_atom list"

datatype regex_term = Once atom | OneOrMore atom

fun class_atom_matches :: "class_atom \<Rightarrow> code_unit \<Rightarrow> bool" where
  "class_atom_matches ClassEscape_d c = isDigit c"
| "class_atom_matches ClassEscape_s c = isWhiteSpace c"
| "class_atom_matches (ClassChar k) c = (c = k)"

text \<open>\<open>CharacterClass True cs\<close> is the negated class \<open>[^...]\<close>.\<close>

fun atom_matches :: "atom \<Rightarrow> code_unit \<Rightarrow> bool" where
  "atom_matches (PatternCharacter k) c = (c = k)"
| "atom_matches (CharacterClass negated cs) c =
     (list_ex (\<lambda>a. class_atom_matches a c) cs \<noteq> negated)"

text \<open>
  \<open>matches ts s\<close>: the terms \<open>ts\<close> match all of \<open>s\<close>, from its first code unit to its last,
  which is what the anchors \<open>^\<close> and \<open>$\<close> demand. Under \<open>+\<close> the engine first tries to take
  more code units and backtracks to the rest of the pattern.
\<close>

fun matches :: "regex_term list \<Rightarrow> jsstring \<Rightarrow> bool" where
  "matches [] s = (s = [])"
| "matches (t # ts) [] = False"
| "matches (Once a # ts) (c # cs) = (atom_matches a c \<and> matches ts cs)"
| "matches (OneOrMore a # ts) (c # cs) =
     (atom_matches a c \<and> (matches (OneOrMore a # ts) cs \<or> matches ts cs))"

text \<open>
  A RegExp object: the pattern between \<open>^\<close> and \<open>$\<close> and the flags \<open>g\<close> and \<open>y\<close> are fixed when
  the literal is evaluated; \<open>lastIndex\<close> is the object's one mutable property and is kept in
  the state of whoever owns the object.
\<close>

record regexp =
  pattern :: "regex_term list"
  global :: bool
  sticky :: bool

text \<open>
  \<open>RegExp.prototype.test\<close> on an anchored pattern, given the current \<open>lastIndex\<close>; returns the
  verdict and the new \<open>lastIndex\<close>. Without \<open>g\<close> and \<open>y\<close> the search starts at index 0 and
  \<open>lastIndex\<close> is not written. With one of them the search starts at \<open>lastIndex\<close>, where \<open>^\<close>
  can only match when it is 0; a success stores the end of the match and a failure stores 0.
\<close>

definition regexp_test :: "regexp \<Rightarrow> nat \<Rightarrow> jsstring \<Rightarrow> bool \<times> nat" where
  "regexp_test r lastIndex s =
     (if \<not> global r \<and> \<not> sticky r then (matches (pattern r) s, lastIndex)
      else if lastIndex = 0 \<and> matches (pattern r) s then (True, length s)
      else (False, 0))"

section \<open>The contact form validator\<close>

text \<open>\<open>ContactFormData\<close> of \<open>types.ts\<close>; \<open>phone\<close> is the optional property.\<close>

record ContactFormData =
  name :: jsstring
  email :: jsstring
  message :: jsstring
  phone :: "jsstring option"

record ValidationResult =
  isValid :: bool
  errors :: "jsstring list"

text \<open>
  The static members of the class \<open>ContactFormValidator\<close>. A static method reads them through
  \<open>this\<close>, which is the class itself, so every method below that reads one takes the class as
  its first argument.
\<close>

record ContactFormValidator_statics =
  EMAIL_REGEX :: regexp
  PHONE_REGEX :: regexp
  MIN_MESSAGE_LENGTH :: nat

text \<open>
  The class as the source initialises it: \<open>/^[^\s@]+@[^\s@]+\.[^\s@]+$/\<close>,
  \<open>/^[\d\s\-\+\(\)]+$/\<close> and \<open>10\<close>. The code units are \<open>@\<close> 0x40, \<open>.\<close> 0x2E, \<open>-\<close> 0x2D, \<open>+\<close> 0x2B,
  \<open>(\<close> 0x28 and \<open>)\<close> 0x29.
\<close>

definition ContactFormValidator :: ContactFormValidator_statics where
  "ContactFormValidator =
     \<lparr>EMAIL_REGEX =
        \<lparr>pattern =
           [OneOrMore (CharacterClass True [ClassEscape_s, ClassChar 0x40]),
            Once (PatternCharacter 0x40),
            OneOrMore (CharacterClass True [ClassEscape_s, ClassChar 0x40]),
            Once (PatternCharacter 0x2E),
            OneOrMore (CharacterClass True [ClassEscape_s, ClassChar 0x40])],
         global = False, sticky = False\<rparr>,
      PHONE_REGEX =
        \<lparr>pattern =
           [OneOrMore (CharacterClass False
              [ClassEscape_d, ClassEscape_s, ClassChar 0x2D, ClassChar 0x2B,
               ClassChar 0x28, ClassChar 0x29])],
         global = False, sticky = False\<rparr>,
      MIN_MESSAGE_LENGTH = 10\<rparr>"

text \<open>
  The mutable state behind the class: the \<open>lastIndex\<close> of its two RegExp objects. Every
  method that calls \<open>test\<close> takes this state and returns it.
\<close>

record validator_state =
  EMAIL_lastIndex :: nat
  PHONE_lastIndex :: nat

definition validateEmail ::
  "ContactFormValidator_statics \<Rightarrow> validator_state \<Rightarrow> jsstring \<Rightarrow> bool \<times> validator_state" where
  "validateEmail this st email' =
     (let (ok, li) = regexp_test (EMAIL_REGEX this) (EMAIL_lastIndex st) email'
      in (ok, st\<lparr>EMAIL_lastIndex := li\<rparr>))"

text \<open>\<open>||\<close> does not evaluate \<open>test\<close> when the length is 0.\<close>

definition validatePhone ::
  "ContactFormValidator_statics \<Rightarrow> validator_state \<Rightarrow> jsstring \<Rightarrow> bool \<times> validator_state" where
  "validatePhone this st phone' =
     (if length phone' = 0 then (True, st)
      else (let (ok, li) = regexp_test (PHONE_REGEX this) (PHONE_lastIndex st) phone'
            in (ok, st\<lparr>PHONE_lastIndex := li\<rparr>)))"

definition validateName :: "jsstring \<Rightarrow> bool" where
  "validateName name' = (length (trim name') \<ge> 2)"

definition validateMessage :: "ContactFormValidator_statics \<Rightarrow> jsstring \<Rightarrow> bool" where
  "validateMessage this message' = (length (trim message') \<ge> MIN_MESSAGE_LENGTH this)"

text \<open>
  \<open>validateForm\<close>. The local array \<open>errors\<close> grows by \<open>push\<close>; \<open>data.phone && ...\<close> calls
  \<open>validatePhone\<close> only for a phone that is present and not the empty string (an absent
  property reads as \<open>undefined\<close>, which is falsy as \<open>''\<close> is). The message text of the last
  rule is a template literal around \<open>this.MIN_MESSAGE_LENGTH\<close>.
\<close>

definition validateForm ::
  "ContactFormValidator_statics \<Rightarrow> validator_state \<Rightarrow> ContactFormData \<Rightarrow>
     ValidationResult \<times> validator_state" where
  "validateForm this st data =
     (let errors0 = [];
          errors1 = (if \<not> validateName (name data)
                     then errors0 @ [js ''Name must be at least 2 characters long'']
                     else errors0);
          (emailOk, st1) = validateEmail this st (email data);
          errors2 = (if \<not> emailOk
                     then errors1 @ [js ''Please enter a valid email address'']
                     else errors1);
          (errors3, st2) =
            (case phone data of
               None \<Rightarrow> (errors2, st1)
             | Some p \<Rightarrow>
                 if p \<noteq> [] then
                   (let (phoneOk, st') = validatePhone this st1 p
                    in (if \<not> phoneOk
                        then errors2 @ [js ''Please enter a valid phone number'']
                        else errors2, st'))
                 else (errors2, st1));
          errors4 = (if \<not> validateMessage this (message data)
                     then errors3 @ [js ''Message must be at least '' @
                                     ToString (MIN_MESSAGE_LENGTH this) @
                                     js '' characters long'']
                     else errors3)
      in (\<lparr>isValid = (length errors4 = 0), errors = errors4\<rparr>, st2))"

section \<open>The per-field check of the contact form\<close>

text \<open>
  \<open>ContactForm.validateField\<close> reads \<open>field.id\<close> and \<open>field.value\<close>, picks an error message by
  a \<open>switch\<close> on the id (no \<open>default\<close> branch, so any other id leaves the message empty), and
  ends in one of two calls: \<open>showFieldError(field, errorMessage)\<close> when the message is a
  non-empty string, \<open>clearFieldError(field)\<close> otherwise. The call it ends in is its outcome
  here; what the two calls do to the document is outside the validator. It names the
  class \<open>ContactFormValidator\<close> directly, here the argument \<open>cls\<close>.
\<close>

datatype field_feedback = ShowFieldError jsstring | ClearFieldError

definition validateField ::
  "ContactFormValidator_statics \<Rightarrow> validator_state \<Rightarrow> jsstring \<Rightarrow> jsstring \<Rightarrow>
     field_feedback \<times> validator_state" where
  "validateField cls st fieldId val =
     (let (errorMessage, st') =
            (if fieldId = js ''contactName'' then
               (if \<not> validateName val then js ''Name must be at least 2 characters'' else [],
                st)
             else if fieldId = js ''contactEmail'' then
               (let (ok, st1) = validateEmail cls st val
                in (if \<not> ok then js ''Invalid email address'' else [], st1))
             else if fieldId = js ''contactPhone'' then
               (if val \<noteq> [] then
                  (let (ok, st1) = validatePhone cls st val
                   in (if \<not> ok then js ''Invalid phone number'' else [], st1))
                else ([], st))
             else if fieldId = js ''contactMessage'' then
               (if \<not> validateMessage cls val
                then js ''Message must be at least '' @ ToString (MIN_MESSAGE_LENGTH cls) @
                     js '' characters''
                else [], st)
             else ([], st))
      in (if errorMessage \<noteq> [] then ShowFieldError errorMessage else ClearFieldError, st'))"

section \<open>The validator on run-time values\<close>














section \<open>Facts about strings and patterns\<close>

lemma ToString_not_Nil: "ToString n \<noteq> []"
  by (subst ToString.simps) simp

lemma digit_inj:
  assumes "a < 10" "b < 10" "digit a = digit b"
  shows "a = b"
proof -
  from assms(3) have "(of_nat a :: 16 word) = of_nat b"
    by (simp add: digit_def)
  then have "take_bit 16 a = take_bit 16 b"
    by (simp add: word_of_nat_eq_iff)
  moreover have "take_bit 16 a = a" "take_bit 16 b = b"
    using assms(1,2) by (simp_all add: take_bit_nat_eq_self_iff)
  ultimately show ?thesis by simp
qed

text \<open>Different numbers have different decimal texts.\<close>

lemma ToString_inj: "ToString m = ToString n \<Longrightarrow> m = n"
proof (induction m arbitrary: n rule: ToString.induct)
  case (1 m)
  show ?case
  proof (cases "m < 10")
    case m: True
    show ?thesis
    proof (cases "n < 10")
      case True
      with m "1.prems" show ?thesis
        by (simp add: ToString.simps [of m] ToString.simps [of n] digit_inj)
    next
      case False
      with m "1.prems" ToString_not_Nil [of "n div 10"] show ?thesis
        by (simp add: ToString.simps [of m] ToString.simps [of n])
    qed
  next
    case m: False
    show ?thesis
    proof (cases "n < 10")
      case True
      with m "1.prems" ToString_not_Nil [of "m div 10"] show ?thesis
        by (simp add: ToString.simps [of m] ToString.simps [of n])
    next
      case False
      with m "1.prems" have eq: "ToString (m div 10) = ToString (n div 10)"
        and d: "digit (m mod 10) = digit (n mod 10)"
        by (simp_all add: ToString.simps [of m] ToString.simps [of n])
      from "1.IH" [OF m eq] have "m div 10 = n div 10" .
      moreover from d have "m mod 10 = n mod 10"
        by (intro digit_inj) simp_all
      ultimately show ?thesis
        by (metis div_mult_mod_eq)
    qed
  qed
qed

lemma ToString_10: "ToString 10 = js ''10''"
  by (simp add: ToString.simps js_def digit_def)

lemma matches_Once:
  "matches (Once a # ts) s \<longleftrightarrow> (\<exists>c cs. s = c # cs \<and> atom_matches a c \<and> matches ts cs)"
  by (cases s) auto

text \<open>
  A term under \<open>+\<close> takes a non-empty prefix of code units that all match its atom, and the
  rest of the pattern matches what is left.
\<close>

lemma matches_OneOrMore:
  "matches (OneOrMore a # ts) s \<longleftrightarrow>
     (\<exists>u v. s = u @ v \<and> u \<noteq> [] \<and> list_all (atom_matches a) u \<and> matches ts v)"
proof (induction s)
  case Nil
  then show ?case by simp
next
  case (Cons c cs)
  show ?case
  proof
    assume "matches (OneOrMore a # ts) (c # cs)"
    then have c: "atom_matches a c" and rest: "matches (OneOrMore a # ts) cs \<or> matches ts cs"
      by simp_all
    from rest
    show "\<exists>u v. c # cs = u @ v \<and> u \<noteq> [] \<and> list_all (atom_matches a) u \<and> matches ts v"
    proof
      assume "matches (OneOrMore a # ts) cs"
      with Cons.IH obtain u v where "cs = u @ v" "list_all (atom_matches a) u" "matches ts v"
        by blast
      with c have "c # cs = (c # u) @ v \<and> c # u \<noteq> [] \<and>
          list_all (atom_matches a) (c # u) \<and> matches ts v"
        by simp
      then show ?thesis by blast
    next
      assume "matches ts cs"
      with c have "c # cs = [c] @ cs \<and> [c] \<noteq> [] \<and>
          list_all (atom_matches a) [c] \<and> matches ts cs"
        by simp
      then show ?thesis by blast
    qed
  next
    assume "\<exists>u v. c # cs = u @ v \<and> u \<noteq> [] \<and> list_all (atom_matches a) u \<and> matches ts v"
    then obtain u v where uv: "c # cs = u @ v" "u \<noteq> []"
        "list_all (atom_matches a) u" "matches ts v"
      by blast
    then obtain u' where u: "u = c # u'" "cs = u' @ v"
      by (cases u) auto
    show "matches (OneOrMore a # ts) (c # cs)"
    proof (cases "u' = []")
      case True
      with u uv show ?thesis by simp
    next
      case False
      with u uv have "matches (OneOrMore a # ts) cs"
        using Cons.IH by auto
      with u uv show ?thesis by simp
    qed
  qed
qed

section \<open>The two pattern tests of the class read and write no state\<close>

lemma validateEmail_eq:
  "validateEmail ContactFormValidator st s =
     (matches (pattern (EMAIL_REGEX ContactFormValidator)) s, st)"
  by (simp add: validateEmail_def regexp_test_def ContactFormValidator_def)

lemma validatePhone_eq:
  "validatePhone ContactFormValidator st s =
     (s = [] \<or> matches (pattern (PHONE_REGEX ContactFormValidator)) s, st)"
  by (simp add: validatePhone_def regexp_test_def ContactFormValidator_def)

lemma email_matches:
  "matches (pattern (EMAIL_REGEX ContactFormValidator)) s \<longleftrightarrow>
     (\<exists>l d t. s = l @ [0x40] @ d @ [0x2E] @ t \<and> l \<noteq> [] \<and> d \<noteq> [] \<and> t \<noteq> [] \<and>
        (\<forall>c \<in> set (l @ d @ t). \<not> isWhiteSpace c \<and> c \<noteq> 0x40))"
  by (simp add: ContactFormValidator_def matches_OneOrMore matches_Once list_all_iff) fast

lemma phone_matches:
  "matches (pattern (PHONE_REGEX ContactFormValidator)) s \<longleftrightarrow>
     (s \<noteq> [] \<and> (\<forall>c \<in> set s. isDigit c \<or> isWhiteSpace c \<or>
        c = 0x2D \<or> c = 0x2B \<or> c = 0x28 \<or> c = 0x29))"
  by (simp add: ContactFormValidator_def matches_OneOrMore matches_Once list_all_iff)

section \<open>Closed forms of the two entry points\<close>

text \<open>
  For any class object whose two patterns carry neither \<open>g\<close> nor \<open>y\<close>, as the literals of the
  source do, a call leaves the state as it found it and its result does not depend on it.
\<close>

lemma validateForm_no_flags:
  assumes "\<not> global (EMAIL_REGEX this)" "\<not> sticky (EMAIL_REGEX this)"
    and "\<not> global (PHONE_REGEX this)" "\<not> sticky (PHONE_REGEX this)"
  shows "validateForm this st d =
    (let es =
       (if validateName (name d) then []
        else [js ''Name must be at least 2 characters long'']) @
       (if matches (pattern (EMAIL_REGEX this)) (email d) then []
        else [js ''Please enter a valid email address'']) @
       (case phone d of
          None \<Rightarrow> []
        | Some p \<Rightarrow>
            if p \<noteq> [] \<and> \<not> matches (pattern (PHONE_REGEX this)) p
            then [js ''Please enter a valid phone number''] else []) @
       (if validateMessage this (message d) then []
        else [js ''Message must be at least '' @ ToString (MIN_MESSAGE_LENGTH this) @
              js '' characters long''])
     in (\<lparr>isValid = (es = []), errors = es\<rparr>, st))"
  using assms
  by (simp add: validateForm_def validateEmail_def validatePhone_def regexp_test_def
      Let_def split: option.split)

lemma field_ids_distinct:
  "js ''contactName'' \<noteq> js ''contactEmail''"
  "js ''contactName'' \<noteq> js ''contactPhone''"
  "js ''contactName'' \<noteq> js ''contactMessage''"
  "js ''contactEmail'' \<noteq> js ''contactPhone''"
  "js ''contactEmail'' \<noteq> js ''contactMessage''"
  "js ''contactPhone'' \<noteq> js ''contactMessage''"
  by (simp_all add: js_def)

lemma field_texts_not_Nil:
  "js ''Name must be at least 2 characters'' \<noteq> []"
  "js ''Invalid email address'' \<noteq> []"
  "js ''Invalid phone number'' \<noteq> []"
  "js ''Message must be at least '' @ ToString m @ js '' characters'' \<noteq> []"
  by (simp_all add: js_def)

lemma validateField_no_flags:
  assumes "\<not> global (EMAIL_REGEX cls)" "\<not> sticky (EMAIL_REGEX cls)"
    and "\<not> global (PHONE_REGEX cls)" "\<not> sticky (PHONE_REGEX cls)"
  shows "validateField cls st fieldId val =
    (if fieldId = js ''contactName'' then
       (if validateName val then ClearFieldError
        else ShowFieldError (js ''Name must be at least 2 characters''))
     else if fieldId = js ''contactEmail'' then
       (if matches (pattern (EMAIL_REGEX cls)) val then ClearFieldError
        else ShowFieldError (js ''Invalid email address''))
     else if fieldId = js ''contactPhone'' then
       (if val \<noteq> [] \<and> \<not> matches (pattern (PHONE_REGEX cls)) val
        then ShowFieldError (js ''Invalid phone number'') else ClearFieldError)
     else if fieldId = js ''contactMessage'' then
       (if validateMessage cls val then ClearFieldError
        else ShowFieldError (js ''Message must be at least '' @
               ToString (MIN_MESSAGE_LENGTH cls) @ js '' characters''))
     else ClearFieldError, st)"
proof -
  consider (n) "fieldId = js ''contactName''" | (e) "fieldId = js ''contactEmail''"
    | (p) "fieldId = js ''contactPhone''" | (m) "fieldId = js ''contactMessage''"
    | (other) "fieldId \<noteq> js ''contactName''" "fieldId \<noteq> js ''contactEmail''"
        "fieldId \<noteq> js ''contactPhone''" "fieldId \<noteq> js ''contactMessage''"
    by blast
  then show ?thesis
  proof cases
    case n
    then show ?thesis
      by (simp add: validateField_def field_texts_not_Nil)
  next
    case e
    with assms show ?thesis
      by (simp add: validateField_def validateEmail_def regexp_test_def
          field_ids_distinct field_ids_distinct [symmetric] field_texts_not_Nil)
  next
    case p
    with assms show ?thesis
      by (simp add: validateField_def validatePhone_def regexp_test_def
          field_ids_distinct field_ids_distinct [symmetric] field_texts_not_Nil)
  next
    case m
    with assms show ?thesis
      by (simp add: validateField_def field_ids_distinct field_ids_distinct [symmetric]
          ToString_not_Nil)
  next
    case other
    then show ?thesis
      by (simp add: validateField_def)
  qed
qed

section \<open>The class as the source initialises it\<close>

lemma class_no_flags:
  "\<not> global (EMAIL_REGEX (ContactFormValidator\<lparr>MIN_MESSAGE_LENGTH := m\<rparr>))"
  "\<not> sticky (EMAIL_REGEX (ContactFormValidator\<lparr>MIN_MESSAGE_LENGTH := m\<rparr>))"
  "\<not> global (PHONE_REGEX (ContactFormValidator\<lparr>MIN_MESSAGE_LENGTH := m\<rparr>))"
  "\<not> sticky (PHONE_REGEX (ContactFormValidator\<lparr>MIN_MESSAGE_LENGTH := m\<rparr>))"
  by (simp_all add: ContactFormValidator_def)

lemma class_flags:
  "\<not> global (EMAIL_REGEX ContactFormValidator)"
  "\<not> sticky (EMAIL_REGEX ContactFormValidator)"
  "\<not> global (PHONE_REGEX ContactFormValidator)"
  "\<not> sticky (PHONE_REGEX ContactFormValidator)"
  by (simp_all add: ContactFormValidator_def)

lemma EMAIL_pattern:
  "pattern (EMAIL_REGEX ContactFormValidator) =
     [OneOrMore (CharacterClass True [ClassEscape_s, ClassChar 0x40]),
      Once (PatternCharacter 0x40),
      OneOrMore (CharacterClass True [ClassEscape_s, ClassChar 0x40]),
      Once (PatternCharacter 0x2E),
      OneOrMore (CharacterClass True [ClassEscape_s, ClassChar 0x40])]"
  by (simp add: ContactFormValidator_def)

lemma PHONE_pattern:
  "pattern (PHONE_REGEX ContactFormValidator) =
     [OneOrMore (CharacterClass False
        [ClassEscape_d, ClassEscape_s, ClassChar 0x2D, ClassChar 0x2B,
         ClassChar 0x28, ClassChar 0x29])]"
  by (simp add: ContactFormValidator_def)

text \<open>The facts that evaluate a call of the validator on a literal input.\<close>

lemmas run_validator =
  validateEmail_eq validatePhone_eq EMAIL_pattern PHONE_pattern validateName_def
  validateMessage_def trim_def js_def isWhiteSpace_def isDigit_def

lemma class_MIN_MESSAGE_LENGTH:
  "ContactFormValidator\<lparr>MIN_MESSAGE_LENGTH := 10\<rparr> = ContactFormValidator"
  by (simp add: ContactFormValidator_def)

lemma class_MIN: "MIN_MESSAGE_LENGTH ContactFormValidator = 10"
  by (simp add: ContactFormValidator_def)

lemma message_text_10:
  "js ''Message must be at least '' @ ToString 10 @ js '' characters long'' =
     js ''Message must be at least 10 characters long''"
  "js ''Message must be at least '' @ ToString 10 @ js '' characters'' =
     js ''Message must be at least 10 characters''"
  by (simp_all add: ToString_10) (simp_all add: js_def)

lemma validateForm_class:
  "validateForm ContactFormValidator st d =
    (let es =
       (if validateName (name d) then []
        else [js ''Name must be at least 2 characters long'']) @
       (if matches (pattern (EMAIL_REGEX ContactFormValidator)) (email d) then []
        else [js ''Please enter a valid email address'']) @
       (case phone d of
          None \<Rightarrow> []
        | Some p \<Rightarrow>
            if p \<noteq> [] \<and> \<not> matches (pattern (PHONE_REGEX ContactFormValidator)) p
            then [js ''Please enter a valid phone number''] else []) @
       (if validateMessage ContactFormValidator (message d) then []
        else [js ''Message must be at least 10 characters long''])
     in (\<lparr>isValid = (es = []), errors = es\<rparr>, st))"
  by (simp only: validateForm_no_flags [OF class_flags] class_MIN message_text_10)

section \<open>The whole-form verdict\<close>

text \<open>
  Claim C1. For every \<open>ContactFormData\<close> and every state of the class, \<open>validateForm\<close> applies
  all four field rules, none cutting the others short: its \<open>errors\<close> list is the name message
  if the name rule fails, then the email message if the email rule fails, then the phone
  message if a phone is present, non-empty and invalid, then the message-length message if
  the message rule fails, one message per failing rule and in that order; and \<open>isValid\<close> is true
  exactly when that list is empty.
\<close>

theorem validateForm_errors_in_order:
  "errors (fst (validateForm ContactFormValidator st d)) =
     (if validateName (name d) then []
      else [js ''Name must be at least 2 characters long'']) @
     (if fst (validateEmail ContactFormValidator st (email d)) then []
      else [js ''Please enter a valid email address'']) @
     (case phone d of
        None \<Rightarrow> []
      | Some p \<Rightarrow>
          if p \<noteq> [] \<and> \<not> fst (validatePhone ContactFormValidator st p)
          then [js ''Please enter a valid phone number''] else []) @
     (if validateMessage ContactFormValidator (message d) then []
      else [js ''Message must be at least 10 characters long'']) \<and>
   isValid (fst (validateForm ContactFormValidator st d)) =
     (errors (fst (validateForm ContactFormValidator st d)) = [])"
  by (simp add: validateForm_class validateEmail_eq validatePhone_eq Let_def
      split: option.split)

theorem validateForm_errors_in_order_witness:
  "errors (fst (validateForm ContactFormValidator \<lparr>EMAIL_lastIndex = 0, PHONE_lastIndex = 0\<rparr>
      \<lparr>name = js ''A'', email = js ''bad'', message = js ''short'',
       phone = Some (js ''call me'')\<rparr>)) =
     [js ''Name must be at least 2 characters long'',
      js ''Please enter a valid email address'',
      js ''Please enter a valid phone number'',
      js ''Message must be at least 10 characters long''] \<and>
   \<not> isValid (fst (validateForm ContactFormValidator \<lparr>EMAIL_lastIndex = 0, PHONE_lastIndex = 0\<rparr>
      \<lparr>name = js ''A'', email = js ''bad'', message = js ''short'',
       phone = Some (js ''call me'')\<rparr>))"
  using validateForm_errors_in_order [of "\<lparr>EMAIL_lastIndex = 0, PHONE_lastIndex = 0\<rparr>"
      "\<lparr>name = js ''A'', email = js ''bad'', message = js ''short'',
        phone = Some (js ''call me'')\<rparr>"]
  by (simp add: run_validator class_MIN)

section \<open>The email and phone rules\<close>

text \<open>
  Claim C3. For every string \<open>s\<close>, \<open>validateEmail(s)\<close> is true exactly when \<open>s\<close> is one or more
  code units that are neither whitespace nor \<open>@\<close>, then \<open>@\<close>, then one or more such code units,
  then \<open>.\<close>, then one or more such code units. It is true for \<open>a@b.co\<close> and false for \<open>a@b\<close> and
  for \<open>a b@c.com\<close>.
\<close>

theorem validateEmail_shape:
  "(fst (validateEmail ContactFormValidator st s) \<longleftrightarrow>
      (\<exists>l d t. s = l @ [0x40] @ d @ [0x2E] @ t \<and> l \<noteq> [] \<and> d \<noteq> [] \<and> t \<noteq> [] \<and>
         (\<forall>c \<in> set (l @ d @ t). \<not> isWhiteSpace c \<and> c \<noteq> 0x40))) \<and>
   fst (validateEmail ContactFormValidator st (js ''a@b.co'')) \<and>
   \<not> fst (validateEmail ContactFormValidator st (js ''a@b'')) \<and>
   \<not> fst (validateEmail ContactFormValidator st (js ''a b@c.com''))"
proof -
  have "fst (validateEmail ContactFormValidator st s) \<longleftrightarrow>
      (\<exists>l d t. s = l @ [0x40] @ d @ [0x2E] @ t \<and> l \<noteq> [] \<and> d \<noteq> [] \<and> t \<noteq> [] \<and>
         (\<forall>c \<in> set (l @ d @ t). \<not> isWhiteSpace c \<and> c \<noteq> 0x40))"
    by (simp only: validateEmail_eq fst_conv email_matches)
  moreover have "fst (validateEmail ContactFormValidator st (js ''a@b.co''))"
    by (simp add: run_validator)
  moreover have "\<not> fst (validateEmail ContactFormValidator st (js ''a@b''))"
    by (simp add: run_validator)
  moreover have "\<not> fst (validateEmail ContactFormValidator st (js ''a b@c.com''))"
    by (simp add: run_validator)
  ultimately show ?thesis by blast
qed

theorem validateEmail_shape_witness:
  "fst (validateEmail ContactFormValidator \<lparr>EMAIL_lastIndex = 0, PHONE_lastIndex = 0\<rparr>
      (js ''al@x.com'')) \<and>
   (\<exists>l d t. js ''al@x.com'' = l @ [0x40] @ d @ [0x2E] @ t \<and> l \<noteq> [] \<and> d \<noteq> [] \<and> t \<noteq> [] \<and>
      (\<forall>c \<in> set (l @ d @ t). \<not> isWhiteSpace c \<and> c \<noteq> 0x40))"
proof -
  have "fst (validateEmail ContactFormValidator \<lparr>EMAIL_lastIndex = 0, PHONE_lastIndex = 0\<rparr>
      (js ''al@x.com''))"
    by (simp add: run_validator)
  with validateEmail_shape [of "\<lparr>EMAIL_lastIndex = 0, PHONE_lastIndex = 0\<rparr>" "js ''al@x.com''"]
  show ?thesis by blast
qed

text \<open>
  Claim C6. For every string \<open>s\<close>, \<open>validatePhone(s)\<close> is true exactly when \<open>s\<close> is empty or every
  code unit of \<open>s\<close> is a digit, whitespace, \<open>-\<close>, \<open>+\<close>, \<open>(\<close> or \<open>)\<close>. It is true for the empty string
  and for \<open>123-456-7890\<close>, and false for \<open>call me\<close>.
\<close>

theorem validatePhone_shape:
  "(fst (validatePhone ContactFormValidator st s) \<longleftrightarrow>
      s = [] \<or> (\<forall>c \<in> set s. isDigit c \<or> isWhiteSpace c \<or>
                  c = 0x2D \<or> c = 0x2B \<or> c = 0x28 \<or> c = 0x29)) \<and>
   fst (validatePhone ContactFormValidator st []) \<and>
   fst (validatePhone ContactFormValidator st (js ''123-456-7890'')) \<and>
   \<not> fst (validatePhone ContactFormValidator st (js ''call me''))"
proof -
  have "fst (validatePhone ContactFormValidator st s) \<longleftrightarrow>
      s = [] \<or> (\<forall>c \<in> set s. isDigit c \<or> isWhiteSpace c \<or>
                  c = 0x2D \<or> c = 0x2B \<or> c = 0x28 \<or> c = 0x29)"
    by (cases "s = []") (simp_all only: validatePhone_eq fst_conv phone_matches simp_thms)
  moreover have "fst (validatePhone ContactFormValidator st [])"
    by (simp add: validatePhone_eq)
  moreover have "fst (validatePhone ContactFormValidator st (js ''123-456-7890''))"
    by (simp add: run_validator)
  moreover have "\<not> fst (validatePhone ContactFormValidator st (js ''call me''))"
    by (simp add: run_validator)
  ultimately show ?thesis by blast
qed

theorem validatePhone_shape_witness:
  "\<not> fst (validatePhone ContactFormValidator \<lparr>EMAIL_lastIndex = 0, PHONE_lastIndex = 0\<rparr>
      (js ''555 x12'')) \<and>
   js ''555 x12'' \<noteq> [] \<and>
   \<not> (\<forall>c \<in> set (js ''555 x12''). isDigit c \<or> isWhiteSpace c \<or>
         c = 0x2D \<or> c = 0x2B \<or> c = 0x28 \<or> c = 0x29)"
proof -
  have "\<not> fst (validatePhone ContactFormValidator \<lparr>EMAIL_lastIndex = 0, PHONE_lastIndex = 0\<rparr>
      (js ''555 x12''))"
    by (simp add: run_validator)
  with validatePhone_shape [of "\<lparr>EMAIL_lastIndex = 0, PHONE_lastIndex = 0\<rparr>" "js ''555 x12''"]
  show ?thesis by blast
qed

text \<open>
  Claim C10. A non-empty phone needs no digit to be accepted: \<open>()\<close>, \<open>-\<close> and a single space
  are non-empty, contain no digit, and \<open>validatePhone\<close> returns true for each.
\<close>

theorem validatePhone_accepts_without_digit:
  "fst (validatePhone ContactFormValidator st (js ''()'')) \<and>
   fst (validatePhone ContactFormValidator st (js ''-'')) \<and>
   fst (validatePhone ContactFormValidator st (js '' '')) \<and>
   js ''()'' \<noteq> [] \<and> js ''-'' \<noteq> [] \<and> js '' '' \<noteq> [] \<and>
   \<not> list_ex isDigit (js ''()'') \<and> \<not> list_ex isDigit (js ''-'') \<and>
   \<not> list_ex isDigit (js '' '')"
  by (simp add: run_validator)

theorem validatePhone_accepts_without_digit_witness:
  "fst (validatePhone ContactFormValidator \<lparr>EMAIL_lastIndex = 0, PHONE_lastIndex = 0\<rparr>
      (js ''()'')) \<and> \<not> list_ex isDigit (js ''()'')"
  using validatePhone_accepts_without_digit [of "\<lparr>EMAIL_lastIndex = 0, PHONE_lastIndex = 0\<rparr>"]
  by blast

section \<open>State, order and multiplicity of the verdict\<close>

lemma validateForm_state: "snd (validateForm ContactFormValidator st d) = st"
  by (simp add: validateForm_class Let_def)

lemma validateForm_any_state:
  "fst (validateForm ContactFormValidator st d) = fst (validateForm ContactFormValidator st' d)"
  by (simp add: validateForm_class Let_def)

text \<open>
  Claim C7. \<open>validateForm\<close> is deterministic and stateless: on the same input it returns the
  same \<open>ValidationResult\<close> whatever the state of the class (the \<open>lastIndex\<close> of its two RegExp
  objects), it leaves that state as it found it, and so a second call on the same input
  gives the result of the first.
\<close>

theorem validateForm_deterministic:
  "fst (validateForm ContactFormValidator st d) = fst (validateForm ContactFormValidator st' d) \<and>
   snd (validateForm ContactFormValidator st d) = st \<and>
   validateForm ContactFormValidator (snd (validateForm ContactFormValidator st d)) d =
     validateForm ContactFormValidator st d"
  by (simp only: validateForm_state validateForm_any_state [of st d st'] simp_thms)

theorem validateForm_deterministic_witness:
  "fst (validateForm ContactFormValidator \<lparr>EMAIL_lastIndex = 0, PHONE_lastIndex = 0\<rparr>
      \<lparr>name = js ''A'', email = js ''al@x.com'', message = js ''short'', phone = Some (js ''12'')\<rparr>) =
   fst (validateForm ContactFormValidator \<lparr>EMAIL_lastIndex = 6, PHONE_lastIndex = 2\<rparr>
      \<lparr>name = js ''A'', email = js ''al@x.com'', message = js ''short'', phone = Some (js ''12'')\<rparr>) \<and>
   errors (fst (validateForm ContactFormValidator \<lparr>EMAIL_lastIndex = 6, PHONE_lastIndex = 2\<rparr>
      \<lparr>name = js ''A'', email = js ''al@x.com'', message = js ''short'', phone = Some (js ''12'')\<rparr>)) =
     [js ''Name must be at least 2 characters long'',
      js ''Message must be at least 10 characters long''] \<and>
   snd (validateForm ContactFormValidator \<lparr>EMAIL_lastIndex = 6, PHONE_lastIndex = 2\<rparr>
      \<lparr>name = js ''A'', email = js ''al@x.com'', message = js ''short'', phone = Some (js ''12'')\<rparr>) =
     \<lparr>EMAIL_lastIndex = 6, PHONE_lastIndex = 2\<rparr>"
proof -
  have "errors (fst (validateForm ContactFormValidator \<lparr>EMAIL_lastIndex = 0, PHONE_lastIndex = 0\<rparr>
      \<lparr>name = js ''A'', email = js ''al@x.com'', message = js ''short'', phone = Some (js ''12'')\<rparr>)) =
     [js ''Name must be at least 2 characters long'',
      js ''Message must be at least 10 characters long'']"
    by (simp add: validateForm_class Let_def run_validator class_MIN)
  with validateForm_deterministic [of "\<lparr>EMAIL_lastIndex = 6, PHONE_lastIndex = 2\<rparr>"
      "\<lparr>name = js ''A'', email = js ''al@x.com'', message = js ''short'', phone = Some (js ''12'')\<rparr>"
      "\<lparr>EMAIL_lastIndex = 0, PHONE_lastIndex = 0\<rparr>"]
  show ?thesis by simp
qed

text \<open>
  The statement above rests on the flags of the two literals. Were the email pattern
  written with \<open>g\<close>, a second \<open>test\<close> of an accepted address would start at the stored
  \<open>lastIndex\<close> and fail.
\<close>

lemma global_flag_would_alternate:
  "regexp_test ((EMAIL_REGEX ContactFormValidator)\<lparr>global := True\<rparr>) 0 (js ''a@b.co'') = (True, 6) \<and>
   regexp_test ((EMAIL_REGEX ContactFormValidator)\<lparr>global := True\<rparr>) 6 (js ''a@b.co'') = (False, 0)"
  by (simp add: regexp_test_def EMAIL_pattern js_def isWhiteSpace_def)

lemma form_texts_distinct:
  "distinct [js ''Name must be at least 2 characters long'',
             js ''Please enter a valid email address'',
             js ''Please enter a valid phone number'',
             js ''Message must be at least '' @ ToString m @ js '' characters long'']"
  by (simp add: js_def)

lemma form_texts_distinct_10:
  "distinct [js ''Name must be at least 2 characters long'',
             js ''Please enter a valid email address'',
             js ''Please enter a valid phone number'',
             js ''Message must be at least 10 characters long'']"
  using form_texts_distinct [of 10] by (simp only: message_text_10)

text \<open>
  Claim C9. An absent phone and an empty-string phone are treated alike: for every form
  data, \<open>validateForm\<close> returns the same result with \<open>phone\<close> omitted as with \<open>phone\<close> set to \<open>''\<close>,
  and in neither case is the phone message among the errors.
\<close>

theorem validateForm_phone_absent_or_empty:
  "validateForm ContactFormValidator st (d\<lparr>phone := None\<rparr>) =
     validateForm ContactFormValidator st (d\<lparr>phone := Some []\<rparr>) \<and>
   js ''Please enter a valid phone number'' \<notin>
     set (errors (fst (validateForm ContactFormValidator st (d\<lparr>phone := None\<rparr>)))) \<and>
   js ''Please enter a valid phone number'' \<notin>
     set (errors (fst (validateForm ContactFormValidator st (d\<lparr>phone := Some []\<rparr>))))"
  using form_texts_distinct_10
  by (auto simp: validateForm_class Let_def)

theorem validateForm_phone_absent_or_empty_witness:
  "validateForm ContactFormValidator \<lparr>EMAIL_lastIndex = 0, PHONE_lastIndex = 0\<rparr>
      \<lparr>name = js ''A'', email = js ''bad'', message = js ''short'', phone = None\<rparr> =
   validateForm ContactFormValidator \<lparr>EMAIL_lastIndex = 0, PHONE_lastIndex = 0\<rparr>
      \<lparr>name = js ''A'', email = js ''bad'', message = js ''short'', phone = Some []\<rparr> \<and>
   errors (fst (validateForm ContactFormValidator \<lparr>EMAIL_lastIndex = 0, PHONE_lastIndex = 0\<rparr>
      \<lparr>name = js ''A'', email = js ''bad'', message = js ''short'', phone = None\<rparr>)) =
     [js ''Name must be at least 2 characters long'',
      js ''Please enter a valid email address'',
      js ''Message must be at least 10 characters long'']"
proof -
  have "errors (fst (validateForm ContactFormValidator \<lparr>EMAIL_lastIndex = 0, PHONE_lastIndex = 0\<rparr>
      \<lparr>name = js ''A'', email = js ''bad'', message = js ''short'', phone = None\<rparr>)) =
     [js ''Name must be at least 2 characters long'',
      js ''Please enter a valid email address'',
      js ''Message must be at least 10 characters long'']"
    by (simp add: validateForm_class Let_def run_validator class_MIN)
  with validateForm_phone_absent_or_empty [of "\<lparr>EMAIL_lastIndex = 0, PHONE_lastIndex = 0\<rparr>"
      "\<lparr>name = js ''A'', email = js ''bad'', message = js ''short'', phone = None\<rparr>"]
  show ?thesis by simp
qed

lemma distinct_count_list: "distinct xs \<Longrightarrow> count_list xs x \<le> 1"
  by (induction xs) (auto simp: count_list_0_iff)

lemma optional_messages:
  assumes "distinct [n, e, p, m]"
    and "es = (if a then [] else [n]) @ (if b then [] else [e]) @
              (if c then [p] else []) @ (if f then [] else [m])"
  shows "subseq es [n, e, p, m]" and "distinct es"
  using assms by (cases a; cases b; cases c; cases f; simp)+

text \<open>
  Claim C8. For every form data the \<open>errors\<close> list of \<open>validateForm\<close> is a subsequence of the
  four-element list of the name, email, phone and message-length messages: it has at most
  four elements, no element twice, and each of the four messages at most once.
\<close>

theorem validateForm_errors_subseq:
  "subseq (errors (fst (validateForm ContactFormValidator st d)))
     [js ''Name must be at least 2 characters long'',
      js ''Please enter a valid email address'',
      js ''Please enter a valid phone number'',
      js ''Message must be at least 10 characters long''] \<and>
   length (errors (fst (validateForm ContactFormValidator st d))) \<le> 4 \<and>
   distinct (errors (fst (validateForm ContactFormValidator st d))) \<and>
   (\<forall>t \<in> set [js ''Name must be at least 2 characters long'',
                js ''Please enter a valid email address'',
                js ''Please enter a valid phone number'',
                js ''Message must be at least 10 characters long''].
      count_list (errors (fst (validateForm ContactFormValidator st d))) t \<le> 1)"
proof -
  let ?es = "errors (fst (validateForm ContactFormValidator st d))"
  have es: "?es =
     (if validateName (name d) then []
      else [js ''Name must be at least 2 characters long'']) @
     (if matches (pattern (EMAIL_REGEX ContactFormValidator)) (email d) then []
      else [js ''Please enter a valid email address'']) @
     (if (\<exists>p. phone d = Some p \<and> p \<noteq> [] \<and>
            \<not> matches (pattern (PHONE_REGEX ContactFormValidator)) p)
      then [js ''Please enter a valid phone number''] else []) @
     (if validateMessage ContactFormValidator (message d) then []
      else [js ''Message must be at least 10 characters long''])"
    by (simp add: validateForm_class Let_def split: option.split)
  note facts = optional_messages [OF form_texts_distinct_10 es]
  from facts(1) have "length ?es \<le> 4"
    by (auto dest: list_emb_length)
  with facts distinct_count_list [OF facts(2)] show ?thesis
    by simp
qed

theorem validateForm_errors_subseq_witness:
  "subseq
     [js ''Name must be at least 2 characters long'',
      js ''Message must be at least 10 characters long'']
     [js ''Name must be at least 2 characters long'',
      js ''Please enter a valid email address'',
      js ''Please enter a valid phone number'',
      js ''Message must be at least 10 characters long''] \<and>
   errors (fst (validateForm ContactFormValidator \<lparr>EMAIL_lastIndex = 0, PHONE_lastIndex = 0\<rparr>
      \<lparr>name = js ''A'', email = js ''al@x.com'', message = js ''short'', phone = None\<rparr>)) =
     [js ''Name must be at least 2 characters long'',
      js ''Message must be at least 10 characters long''] \<and>
   count_list (errors (fst (validateForm ContactFormValidator
      \<lparr>EMAIL_lastIndex = 0, PHONE_lastIndex = 0\<rparr>
      \<lparr>name = js ''A'', email = js ''al@x.com'', message = js ''short'', phone = None\<rparr>)))
      (js ''Name must be at least 2 characters long'') \<le> 1"
proof -
  have "errors (fst (validateForm ContactFormValidator \<lparr>EMAIL_lastIndex = 0, PHONE_lastIndex = 0\<rparr>
      \<lparr>name = js ''A'', email = js ''al@x.com'', message = js ''short'', phone = None\<rparr>)) =
     [js ''Name must be at least 2 characters long'',
      js ''Message must be at least 10 characters long'']"
    by (simp add: validateForm_class Let_def run_validator class_MIN)
  with validateForm_errors_subseq [of "\<lparr>EMAIL_lastIndex = 0, PHONE_lastIndex = 0\<rparr>"
      "\<lparr>name = js ''A'', email = js ''al@x.com'', message = js ''short'', phone = None\<rparr>"]
  show ?thesis by simp
qed

section \<open>The per-field check against the whole-form rules\<close>

lemma validateField_class:
  "validateField ContactFormValidator st fieldId val =
    (if fieldId = js ''contactName'' then
       (if validateName val then ClearFieldError
        else ShowFieldError (js ''Name must be at least 2 characters''))
     else if fieldId = js ''contactEmail'' then
       (if matches (pattern (EMAIL_REGEX ContactFormValidator)) val then ClearFieldError
        else ShowFieldError (js ''Invalid email address''))
     else if fieldId = js ''contactPhone'' then
       (if val \<noteq> [] \<and> \<not> matches (pattern (PHONE_REGEX ContactFormValidator)) val
        then ShowFieldError (js ''Invalid phone number'') else ClearFieldError)
     else if fieldId = js ''contactMessage'' then
       (if validateMessage ContactFormValidator val then ClearFieldError
        else ShowFieldError (js ''Message must be at least 10 characters''))
     else ClearFieldError, st)"
  by (simp only: validateField_no_flags [OF class_flags] class_MIN message_text_10)

text \<open>
  Claim C2. For each of the field identifiers \<open>contactName\<close>, \<open>contactEmail\<close>, \<open>contactPhone\<close>
  and \<open>contactMessage\<close> and every string value, \<open>validateField\<close> reports an error message
  exactly when the rule that \<open>validateForm\<close> applies to that field fails on the value (for
  \<open>contactPhone\<close> only when the value is non-empty and invalid), and reports none when the
  field passes. In terms of \<open>validateForm\<close> itself: a rule's message is among the errors of a
  form exactly when \<open>validateField\<close> on that field's value reports an error.
\<close>

theorem validateField_mirrors_field_rules:
  "fst (validateField ContactFormValidator st (js ''contactName'') v) =
     (if validateName v then ClearFieldError
      else ShowFieldError (js ''Name must be at least 2 characters'')) \<and>
   fst (validateField ContactFormValidator st (js ''contactEmail'') v) =
     (if fst (validateEmail ContactFormValidator st v) then ClearFieldError
      else ShowFieldError (js ''Invalid email address'')) \<and>
   fst (validateField ContactFormValidator st (js ''contactPhone'') v) =
     (if v \<noteq> [] \<and> \<not> fst (validatePhone ContactFormValidator st v)
      then ShowFieldError (js ''Invalid phone number'') else ClearFieldError) \<and>
   fst (validateField ContactFormValidator st (js ''contactMessage'') v) =
     (if validateMessage ContactFormValidator v then ClearFieldError
      else ShowFieldError (js ''Message must be at least 10 characters'')) \<and>
   (js ''Name must be at least 2 characters long''
      \<in> set (errors (fst (validateForm ContactFormValidator st d))) \<longleftrightarrow>
    fst (validateField ContactFormValidator st (js ''contactName'') (name d))
      \<noteq> ClearFieldError) \<and>
   (js ''Please enter a valid email address''
      \<in> set (errors (fst (validateForm ContactFormValidator st d))) \<longleftrightarrow>
    fst (validateField ContactFormValidator st (js ''contactEmail'') (email d))
      \<noteq> ClearFieldError) \<and>
   (js ''Please enter a valid phone number''
      \<in> set (errors (fst (validateForm ContactFormValidator st d))) \<longleftrightarrow>
    (\<exists>p. phone d = Some p \<and>
       fst (validateField ContactFormValidator st (js ''contactPhone'') p)
         \<noteq> ClearFieldError)) \<and>
   (js ''Message must be at least 10 characters long''
      \<in> set (errors (fst (validateForm ContactFormValidator st d))) \<longleftrightarrow>
    fst (validateField ContactFormValidator st (js ''contactMessage'') (message d))
      \<noteq> ClearFieldError)"
proof -
  have field: "fst (validateField ContactFormValidator st (js ''contactName'') w) =
       (if validateName w then ClearFieldError
        else ShowFieldError (js ''Name must be at least 2 characters''))"
    "fst (validateField ContactFormValidator st (js ''contactEmail'') w) =
       (if fst (validateEmail ContactFormValidator st w) then ClearFieldError
        else ShowFieldError (js ''Invalid email address''))"
    "fst (validateField ContactFormValidator st (js ''contactPhone'') w) =
       (if w \<noteq> [] \<and> \<not> fst (validatePhone ContactFormValidator st w)
        then ShowFieldError (js ''Invalid phone number'') else ClearFieldError)"
    "fst (validateField ContactFormValidator st (js ''contactMessage'') w) =
       (if validateMessage ContactFormValidator w then ClearFieldError
        else ShowFieldError (js ''Message must be at least 10 characters''))" for w
    by (simp_all add: validateField_class validateEmail_eq validatePhone_eq
        field_ids_distinct field_ids_distinct [symmetric])
  have form: "js ''Name must be at least 2 characters long''
        \<in> set (errors (fst (validateForm ContactFormValidator st d))) \<longleftrightarrow>
      \<not> validateName (name d)"
    "js ''Please enter a valid email address''
        \<in> set (errors (fst (validateForm ContactFormValidator st d))) \<longleftrightarrow>
      \<not> fst (validateEmail ContactFormValidator st (email d))"
    "js ''Please enter a valid phone number''
        \<in> set (errors (fst (validateForm ContactFormValidator st d))) \<longleftrightarrow>
      (\<exists>p. phone d = Some p \<and> p \<noteq> [] \<and> \<not> fst (validatePhone ContactFormValidator st p))"
    "js ''Message must be at least 10 characters long''
        \<in> set (errors (fst (validateForm ContactFormValidator st d))) \<longleftrightarrow>
      \<not> validateMessage ContactFormValidator (message d)"
    using form_texts_distinct_10
    by (cases "phone d";
        auto simp: validateForm_class validateEmail_eq validatePhone_eq Let_def)+
  show ?thesis
    by (simp only: field form) auto
qed

theorem validateField_mirrors_field_rules_witness:
  "fst (validateField ContactFormValidator \<lparr>EMAIL_lastIndex = 0, PHONE_lastIndex = 0\<rparr>
      (js ''contactPhone'') (js ''call me'')) = ShowFieldError (js ''Invalid phone number'') \<and>
   js ''Please enter a valid phone number''
      \<in> set (errors (fst (validateForm ContactFormValidator
            \<lparr>EMAIL_lastIndex = 0, PHONE_lastIndex = 0\<rparr>
            \<lparr>name = js ''Al'', email = js ''al@x.com'', message = js ''0123456789'',
             phone = Some (js ''call me'')\<rparr>)))"
proof -
  have "\<not> fst (validatePhone ContactFormValidator \<lparr>EMAIL_lastIndex = 0, PHONE_lastIndex = 0\<rparr>
      (js ''call me''))" and "js ''call me'' \<noteq> []"
    by (simp_all add: run_validator)
  with validateField_mirrors_field_rules [of "\<lparr>EMAIL_lastIndex = 0, PHONE_lastIndex = 0\<rparr>"
      "js ''call me''"
      "\<lparr>name = js ''Al'', email = js ''al@x.com'', message = js ''0123456789'',
        phone = Some (js ''call me'')\<rparr>"]
  show ?thesis by simp
qed







section \<open>The message texts and the configured minimum length\<close>

lemma validateEmail_no_flags:
  "\<not> global (EMAIL_REGEX this) \<Longrightarrow> \<not> sticky (EMAIL_REGEX this) \<Longrightarrow>
   validateEmail this st s = (matches (pattern (EMAIL_REGEX this)) s, st)"
  by (simp add: validateEmail_def regexp_test_def)

lemma validatePhone_no_flags:
  "\<not> global (PHONE_REGEX this) \<Longrightarrow> \<not> sticky (PHONE_REGEX this) \<Longrightarrow>
   validatePhone this st s = (s = [] \<or> matches (pattern (PHONE_REGEX this)) s, st)"
  by (simp add: validatePhone_def regexp_test_def)

lemma interpolated_text_inj:
  "(pre @ ToString m @ post = pre @ ToString m' @ post) = (m = m')"
  by (auto dest: ToString_inj)

text \<open>
  Claim C5 says that a rule yields the same text wherever it is reported, in \<open>validateForm\<close>
  and in \<open>validateField\<close>. It does not: for the name \<open>A\<close>, which fails the name rule,
  \<open>validateForm\<close> reports \<open>Name must be at least 2 characters long\<close> and \<open>validateField\<close> reports
  \<open>Name must be at least 2 characters\<close>.
\<close>

theorem form_and_field_texts_differ:
  "errors (fst (validateForm ContactFormValidator \<lparr>EMAIL_lastIndex = 0, PHONE_lastIndex = 0\<rparr>
      \<lparr>name = js ''A'', email = js ''al@x.com'', message = js ''0123456789'',
       phone = None\<rparr>)) =
     [js ''Name must be at least 2 characters long''] \<and>
   fst (validateField ContactFormValidator \<lparr>EMAIL_lastIndex = 0, PHONE_lastIndex = 0\<rparr>
      (js ''contactName'') (js ''A'')) =
     ShowFieldError (js ''Name must be at least 2 characters'') \<and>
   js ''Name must be at least 2 characters long'' \<noteq> js ''Name must be at least 2 characters''"
proof -
  have "errors (fst (validateForm ContactFormValidator \<lparr>EMAIL_lastIndex = 0, PHONE_lastIndex = 0\<rparr>
      \<lparr>name = js ''A'', email = js ''al@x.com'', message = js ''0123456789'',
       phone = None\<rparr>)) =
     [js ''Name must be at least 2 characters long'']"
    by (simp add: validateForm_class Let_def run_validator class_MIN)
  moreover have "\<not> validateName (js ''A'')"
    by (simp add: run_validator)
  then have "fst (validateField ContactFormValidator \<lparr>EMAIL_lastIndex = 0, PHONE_lastIndex = 0\<rparr>
      (js ''contactName'') (js ''A'')) =
     ShowFieldError (js ''Name must be at least 2 characters'')"
    by (simp add: validateField_class)
  moreover have
    "js ''Name must be at least 2 characters long'' \<noteq> js ''Name must be at least 2 characters''"
    by (simp add: js_def)
  ultimately show ?thesis by blast
qed

text \<open>
  Claim C5, as amended. Each of the two reporting functions has its own fixed text for each
  rule, whatever the input: \<open>validateForm\<close> reports the four texts ending in \<open>long\<close>,
  \<open>address\<close>, \<open>number\<close> and \<open>long\<close>, \<open>validateField\<close> four shorter ones. In both, the
  message-length text is built from the class constant \<open>MIN_MESSAGE_LENGTH\<close>, the same
  constant the check compares with: for a class whose constant is \<open>m\<close>, the rule fails exactly
  when the trimmed length is below \<open>m\<close>, both texts carry the decimal digits of \<open>m\<close>, and
  different values of \<open>m\<close> give different texts. The source sets the constant to 10.
\<close>

theorem message_texts_per_site:
  "errors (fst (validateForm (ContactFormValidator\<lparr>MIN_MESSAGE_LENGTH := m\<rparr>) st d)) =
     (if validateName (name d) then []
      else [js ''Name must be at least 2 characters long'']) @
     (if fst (validateEmail (ContactFormValidator\<lparr>MIN_MESSAGE_LENGTH := m\<rparr>) st (email d))
      then [] else [js ''Please enter a valid email address'']) @
     (case phone d of
        None \<Rightarrow> []
      | Some p \<Rightarrow>
          if p \<noteq> [] \<and>
             \<not> fst (validatePhone (ContactFormValidator\<lparr>MIN_MESSAGE_LENGTH := m\<rparr>) st p)
          then [js ''Please enter a valid phone number''] else []) @
     (if m \<le> length (trim (message d)) then []
      else [js ''Message must be at least '' @ ToString m @ js '' characters long'']) \<and>
   fst (validateField (ContactFormValidator\<lparr>MIN_MESSAGE_LENGTH := m\<rparr>) st fieldId v) =
     (if fieldId = js ''contactName'' then
        (if validateName v then ClearFieldError
         else ShowFieldError (js ''Name must be at least 2 characters''))
      else if fieldId = js ''contactEmail'' then
        (if fst (validateEmail (ContactFormValidator\<lparr>MIN_MESSAGE_LENGTH := m\<rparr>) st v)
         then ClearFieldError else ShowFieldError (js ''Invalid email address''))
      else if fieldId = js ''contactPhone'' then
        (if v \<noteq> [] \<and>
            \<not> fst (validatePhone (ContactFormValidator\<lparr>MIN_MESSAGE_LENGTH := m\<rparr>) st v)
         then ShowFieldError (js ''Invalid phone number'') else ClearFieldError)
      else if fieldId = js ''contactMessage'' then
        (if m \<le> length (trim v) then ClearFieldError
         else ShowFieldError
                (js ''Message must be at least '' @ ToString m @ js '' characters''))
      else ClearFieldError) \<and>
   ((js ''Message must be at least '' @ ToString m @ js '' characters long'' =
     js ''Message must be at least '' @ ToString m' @ js '' characters long'') = (m = m')) \<and>
   ((js ''Message must be at least '' @ ToString m @ js '' characters'' =
     js ''Message must be at least '' @ ToString m' @ js '' characters'') = (m = m')) \<and>
   ContactFormValidator\<lparr>MIN_MESSAGE_LENGTH := 10\<rparr> = ContactFormValidator"
proof -
  let ?C = "ContactFormValidator\<lparr>MIN_MESSAGE_LENGTH := m\<rparr>"
  note nf = class_no_flags [of m]
  have e: "validateEmail ?C st s = (matches (pattern (EMAIL_REGEX ?C)) s, st)" for s
    using nf by (intro validateEmail_no_flags)
  have p: "validatePhone ?C st s = (s = [] \<or> matches (pattern (PHONE_REGEX ?C)) s, st)" for s
    using nf by (intro validatePhone_no_flags)
  have msg: "validateMessage ?C s = (m \<le> length (trim s))" for s
    by (simp add: validateMessage_def)
  have form: "errors (fst (validateForm ?C st d)) =
     (if validateName (name d) then []
      else [js ''Name must be at least 2 characters long'']) @
     (if fst (validateEmail ?C st (email d))
      then [] else [js ''Please enter a valid email address'']) @
     (case phone d of
        None \<Rightarrow> []
      | Some p \<Rightarrow>
          if p \<noteq> [] \<and> \<not> fst (validatePhone ?C st p)
          then [js ''Please enter a valid phone number''] else []) @
     (if m \<le> length (trim (message d)) then []
      else [js ''Message must be at least '' @ ToString m @ js '' characters long''])"
    by (simp add: validateForm_no_flags [OF nf] e p msg Let_def split: option.split)
  have field: "fst (validateField ?C st fieldId v) =
     (if fieldId = js ''contactName'' then
        (if validateName v then ClearFieldError
         else ShowFieldError (js ''Name must be at least 2 characters''))
      else if fieldId = js ''contactEmail'' then
        (if fst (validateEmail ?C st v)
         then ClearFieldError else ShowFieldError (js ''Invalid email address''))
      else if fieldId = js ''contactPhone'' then
        (if v \<noteq> [] \<and> \<not> fst (validatePhone ?C st v)
         then ShowFieldError (js ''Invalid phone number'') else ClearFieldError)
      else if fieldId = js ''contactMessage'' then
        (if m \<le> length (trim v) then ClearFieldError
         else ShowFieldError
                (js ''Message must be at least '' @ ToString m @ js '' characters''))
      else ClearFieldError)"
    by (simp add: validateField_no_flags [OF nf] e p msg)
  from form field show ?thesis
    by (simp only: interpolated_text_inj class_MIN_MESSAGE_LENGTH simp_thms)
qed

theorem message_texts_per_site_witness:
  "errors (fst (validateForm (ContactFormValidator\<lparr>MIN_MESSAGE_LENGTH := 12\<rparr>)
      \<lparr>EMAIL_lastIndex = 0, PHONE_lastIndex = 0\<rparr>
      \<lparr>name = js ''Al'', email = js ''al@x.com'', message = js ''0123456789'',
       phone = Some (js ''call me'')\<rparr>)) =
     [js ''Please enter a valid phone number'',
      js ''Message must be at least 12 characters long''] \<and>
   fst (validateField (ContactFormValidator\<lparr>MIN_MESSAGE_LENGTH := 12\<rparr>)
      \<lparr>EMAIL_lastIndex = 0, PHONE_lastIndex = 0\<rparr> (js ''contactMessage'')
      (js ''0123456789'')) =
     ShowFieldError (js ''Message must be at least 12 characters'')"
proof -
  have "pattern (EMAIL_REGEX (ContactFormValidator\<lparr>MIN_MESSAGE_LENGTH := 12\<rparr>)) =
      pattern (EMAIL_REGEX ContactFormValidator)"
    "pattern (PHONE_REGEX (ContactFormValidator\<lparr>MIN_MESSAGE_LENGTH := 12\<rparr>)) =
      pattern (PHONE_REGEX ContactFormValidator)"
    by simp_all
  moreover have "ToString 12 = js ''12''"
    by (simp add: ToString.simps js_def digit_def)
  ultimately show ?thesis
    using message_texts_per_site [of 12 "\<lparr>EMAIL_lastIndex = 0, PHONE_lastIndex = 0\<rparr>"
      "\<lparr>name = js ''Al'', email = js ''al@x.com'', message = js ''0123456789'',
        phone = Some (js ''call me'')\<rparr>" "js ''contactMessage'' " "js ''0123456789''"]
    by (simp add: validateEmail_no_flags validatePhone_no_flags class_flags
        EMAIL_pattern PHONE_pattern validateName_def trim_def js_def isWhiteSpace_def
        isDigit_def)
qed

end
